theory Spec2Isabelle
  imports Complex_Main "HOL-Library.AList"
begin

section \<open>Data model (src/shared/models/__init__.py)\<close>

text \<open>
  Python strings are modelled as \<open>string\<close>; a character outside ASCII is written as its
  UTF-8 bytes. Python floats (distances, confidence, clock readings) are modelled as
  \<open>real\<close>: the claims below only use the order and the arithmetic of the numbers, not
  their rounding.

  A metadata dictionary holds strings and integers (the only kinds of value this
  repository writes into one). A dictionary is an association list, in insertion order;
  \<open>{**d, k: v}\<close> is \<open>AList.update k v d\<close> and \<open>d.get(k, dflt)\<close> is \<open>dict_get d k dflt\<close>.
\<close>

datatype mval = MStr string | MInt int

type_synonym metadata = "(string \<times> mval) list"

definition dict_get :: "metadata \<Rightarrow> string \<Rightarrow> mval \<Rightarrow> mval" where
  "dict_get d k dflt = (case map_of d k of None \<Rightarrow> dflt | Some v \<Rightarrow> v)"

datatype DocumentType = PDF | TXT | DOCX

fun DocumentType_value :: "DocumentType \<Rightarrow> string" where
  "DocumentType_value PDF = ''pdf''"
| "DocumentType_value TXT = ''txt''"
| "DocumentType_value DOCX = ''docx''"

record Document =
  d_id :: string
  d_filename :: string
  d_file_type :: DocumentType
  d_size_bytes :: int
  d_uploaded_at :: real
  d_content :: "string option"
  d_summary :: "string option"
  d_topics :: "string list"

text \<open>
  A dataclass does not check the types of its fields: \<open>search_documents\<close> fills \<open>id\<close> and
  \<open>document_id\<close> of a chunk with whatever the stored metadata holds, so both are \<open>mval\<close>.
\<close>

record DocumentChunk =
  c_id :: mval
  c_document_id :: mval
  c_content :: string
  c_metadata :: metadata
  c_embedding :: "real list option"

record ChatMessage =
  m_role :: string
  m_content :: string
  m_timestamp :: real
  m_sources :: "string list"

record QueryResult =
  answer :: string
  sources :: "DocumentChunk list"
  confidence :: real
  processing_time :: real

section \<open>External collaborators\<close>

text \<open>
  The LangChain document, the rows of the Chroma collection, the filter of a query and
  the messages of a chat request. An exception is a value; \<open>str_exn\<close> is Python's
  \<open>str(e)\<close>.
\<close>

record LangChainDocument =
  page_content :: string
  metadata :: metadata

record entry =
  e_id :: string
  e_document :: string
  e_metadata :: metadata
  e_embedding :: "real list"

type_synonym collection = "entry list"

datatype where_filter = DocumentIdEq string | DocumentIdIn "string list"

datatype message = SystemMessage string | HumanMessage string | AIMessage string

datatype exn = Exception string | TypeError string

fun str_exn :: "exn \<Rightarrow> string" where
  "str_exn (Exception s) = s"
| "str_exn (TypeError s) = s"

text \<open>
  The services the code calls and does not implement: the similarity search of the
  index (it embeds the query over the network, so it may raise), the embedding of a batch
  of texts, the chat model, and the two clocks (the n-th reading during one call).
\<close>

record env =
  similarity_search_with_score ::
    "collection \<Rightarrow> string \<Rightarrow> int \<Rightarrow> where_filter option \<Rightarrow> exn + (LangChainDocument \<times> real) list"
  embed_documents :: "string list \<Rightarrow> exn + real list list"
  llm :: "message list \<Rightarrow> exn + string"
  time_time :: "nat \<Rightarrow> real"
  datetime_now :: "nat \<Rightarrow> real"

section \<open>String helpers\<close>

definition digit_char :: "nat \<Rightarrow> char" where
  "digit_char n = ''0123456789'' ! n"

fun str_nat :: "nat \<Rightarrow> string" where
  "str_nat n = (if n < 10 then [digit_char n] else str_nat (n div 10) @ [digit_char (n mod 10)])"

declare str_nat.simps [simp del]

definition str_int :: "int \<Rightarrow> string" where
  "str_int i = (if i < 0 then CHR ''-'' # str_nat (nat (- i)) else str_nat (nat i))"

fun str_mval :: "mval \<Rightarrow> string" where
  "str_mval (MStr s) = s"
| "str_mval (MInt i) = str_int i"

fun str_join :: "string \<Rightarrow> string list \<Rightarrow> string" where
  "str_join sep [] = []"
| "str_join sep [x] = x"
| "str_join sep (x # y # ys) = x @ sep @ str_join sep (y # ys)"

section \<open>VectorStore (src/shared/utils/vector_store.py)\<close>

definition no_relevant_context :: string where
  "no_relevant_context = ''No relevant context found in the documents.''"

definition section_separator :: string where
  "section_separator =
     [CHR 0x0A, CHR 0x0A] @ ''--- Document Section ---'' @ [CHR 0x0A, CHR 0x0A]"

definition VectorStore_search ::
  "env \<Rightarrow> collection \<Rightarrow> string \<Rightarrow> int \<Rightarrow> where_filter option
     \<Rightarrow> exn + (LangChainDocument \<times> real) list" where
  "VectorStore_search e coll query k filter_dict =
     similarity_search_with_score e coll query k filter_dict"

text \<open>The filtering loop of \<open>get_relevant_context\<close>.\<close>

fun relevant_chunks :: "(LangChainDocument \<times> real) list \<Rightarrow> real \<Rightarrow> string list" where
  "relevant_chunks [] min_score = []"
| "relevant_chunks ((doc, score) # results) min_score =
     (let similarity = 1 - score in
      if similarity \<ge> min_score
      then page_content doc # relevant_chunks results min_score
      else relevant_chunks results min_score)"

definition VectorStore_get_relevant_context ::
  "env \<Rightarrow> collection \<Rightarrow> string \<Rightarrow> int \<Rightarrow> real \<Rightarrow> exn + string" where
  "VectorStore_get_relevant_context e coll query max_chunks min_score =
     (case VectorStore_search e coll query max_chunks None of
        Inl ex \<Rightarrow> Inl ex
      | Inr results \<Rightarrow>
          (let chunks = relevant_chunks results min_score in
           if chunks = [] then Inr no_relevant_context
           else Inr (str_join section_separator chunks)))"

section \<open>SemanticSearchEngine (src/shared/utils/vector_store.py)\<close>

definition source_chunk :: "LangChainDocument \<times> real \<Rightarrow> DocumentChunk" where
  "source_chunk r =
     (case r of (doc, score) \<Rightarrow>
        \<lparr> c_id = dict_get (metadata doc) ''chunk_id'' (MStr ''''),
          c_document_id = dict_get (metadata doc) ''document_id'' (MStr ''''),
          c_content = page_content doc,
          c_metadata = metadata doc,
          c_embedding = None \<rparr>)"

definition calc_confidence :: "(LangChainDocument \<times> real) list \<Rightarrow> real" where
  "calc_confidence results =
     (if results \<noteq> []
      then (let avg_distance = sum_list (map snd results) / real (length results)
            in max 0 (1 - avg_distance))
      else 0)"

text \<open>The filter \<open>search_documents\<close> prepares: none unless document ids are given.\<close>

definition filter_dict_of :: "string list option \<Rightarrow> where_filter option" where
  "filter_dict_of document_ids =
     (case document_ids of
        None \<Rightarrow> None
      | Some ids \<Rightarrow> if ids = [] then None else Some (DocumentIdIn ids))"

definition search_documents ::
  "env \<Rightarrow> collection \<Rightarrow> string \<Rightarrow> string list option \<Rightarrow> int \<Rightarrow> exn + QueryResult" where
  "search_documents e coll query document_ids max_results =
     (let start_time = time_time e 0;
          filter_dict = filter_dict_of document_ids
      in case VectorStore_search e coll query max_results filter_dict of
           Inl ex \<Rightarrow> Inl ex
         | Inr results \<Rightarrow>
             (let source_chunks = map source_chunk results;
                  conf = calc_confidence results
              in case VectorStore_get_relevant_context e coll query max_results (7 / 10) of
                   Inl ex \<Rightarrow> Inl ex
                 | Inr ans \<Rightarrow>
                     Inr \<lparr> answer = ans, sources = source_chunks, confidence = conf,
                           processing_time = time_time e 1 - start_time \<rparr>))"

text \<open>
  The Chroma collection is keyed by entry id; \<open>upsert\<close> replaces the entry that has the
  id and appends otherwise.
\<close>

fun upsert1 :: "entry \<Rightarrow> collection \<Rightarrow> collection" where
  "upsert1 x [] = [x]"
| "upsert1 x (y # ys) = (if e_id y = e_id x then x # ys else y # upsert1 x ys)"

definition collection_upsert :: "entry list \<Rightarrow> collection \<Rightarrow> collection" where
  "collection_upsert new coll = foldl (\<lambda>c x. upsert1 x c) coll new"

text \<open>
  \<open>add_chunks\<close> calls LangChain's \<open>add_documents(documents)\<close> and passes no \<open>ids\<close>. The
  wrapper then makes one id per text, \<open>str(uuid.uuid1())\<close>, embeds the texts and upserts
  the rows under those ids. The generated ids are the argument \<open>uuids\<close>.
\<close>

definition Chroma_add_documents ::
  "env \<Rightarrow> string list \<Rightarrow> LangChainDocument list \<Rightarrow> collection \<Rightarrow> exn + collection" where
  "Chroma_add_documents e uuids documents coll =
     (let texts = map page_content documents;
          metadatas = map metadata documents;
          ids = take (length texts) uuids
      in case embed_documents e texts of
           Inl ex \<Rightarrow> Inl ex
         | Inr embeddings \<Rightarrow>
             Inr (collection_upsert
                    (map (\<lambda>(i, t, m, v).
                            \<lparr> e_id = i, e_document = t, e_metadata = m, e_embedding = v \<rparr>)
                         (zip ids (zip texts (zip metadatas embeddings))))
                    coll))"

definition chunk_document :: "DocumentChunk \<Rightarrow> LangChainDocument" where
  "chunk_document chunk =
     \<lparr> page_content = c_content chunk,
       metadata = AList.update ''document_id'' (c_document_id chunk)
                    (AList.update ''chunk_id'' (c_id chunk) (c_metadata chunk)) \<rparr>"

definition add_chunks ::
  "env \<Rightarrow> string list \<Rightarrow> DocumentChunk list \<Rightarrow> collection \<Rightarrow> exn + collection" where
  "add_chunks e uuids chunks coll =
     (if chunks = [] then Inr coll
      else (let documents = map chunk_document chunks
            in Chroma_add_documents e uuids documents coll))"

definition index_chunks ::
  "env \<Rightarrow> string list \<Rightarrow> DocumentChunk list \<Rightarrow> collection \<Rightarrow> exn + collection" where
  "index_chunks e uuids chunks coll = add_chunks e uuids chunks coll"

text \<open>The rows \<open>add_chunks\<close> hands to the upsert, given the generated ids and the embeddings.\<close>

definition new_rows ::
  "string list \<Rightarrow> DocumentChunk list \<Rightarrow> real list list \<Rightarrow> entry list" where
  "new_rows uuids chunks embeddings =
     map (\<lambda>(i, t, m, v). \<lparr> e_id = i, e_document = t, e_metadata = m, e_embedding = v \<rparr>)
       (zip (take (length chunks) uuids)
          (zip (map (page_content \<circ> chunk_document) chunks)
             (zip (map (metadata \<circ> chunk_document) chunks) embeddings)))"

text \<open>\<open>collection.get(where={"document_id": document_id})['ids']\<close> and \<open>collection.delete(ids=...)\<close>.\<close>

definition collection_get_ids :: "collection \<Rightarrow> string \<Rightarrow> string list" where
  "collection_get_ids coll document_id =
     map e_id (filter (\<lambda>x. map_of (e_metadata x) ''document_id'' = Some (MStr document_id)) coll)"

definition collection_delete :: "string list \<Rightarrow> collection \<Rightarrow> collection" where
  "collection_delete ids coll = filter (\<lambda>x. e_id x \<notin> set ids) coll"

definition VectorStore_remove_document :: "collection \<Rightarrow> string \<Rightarrow> collection" where
  "VectorStore_remove_document coll document_id =
     (let ids = collection_get_ids coll document_id
      in if ids \<noteq> [] then collection_delete ids coll else coll)"

section \<open>DocumentProcessor and DocumentManager (src/shared/utils/document_processor.py)\<close>

text \<open>
  The text splitter is LangChain's; \<open>split_text\<close> stands for it. \<open>split_documents\<close> hands
  every piece the metadata of the document it was cut from.
\<close>

definition split_documents ::
  "(string \<Rightarrow> string list) \<Rightarrow> LangChainDocument \<Rightarrow> LangChainDocument list" where
  "split_documents split_text doc =
     map (\<lambda>t. \<lparr> page_content = t, metadata = metadata doc \<rparr>) (split_text (page_content doc))"

definition create_chunks :: "(string \<Rightarrow> string list) \<Rightarrow> Document \<Rightarrow> DocumentChunk list" where
  "create_chunks split_text document =
     (case d_content document of
        None \<Rightarrow> []
      | Some text \<Rightarrow>
          if text = [] then []
          else
            (let langchain_doc =
                   \<lparr> page_content = text,
                     metadata = [(''document_id'', MStr (d_id document)),
                                 (''filename'', MStr (d_filename document)),
                                 (''file_type'', MStr (DocumentType_value (d_file_type document)))] \<rparr>;
                 chunks = split_documents split_text langchain_doc
             in map (\<lambda>(i, chunk).
                       \<lparr> c_id = MStr (d_id document @ ''_'' @ str_nat i),
                         c_document_id = MStr (d_id document),
                         c_content = page_content chunk,
                         c_metadata =
                           AList.update ''total_chunks'' (MInt (int (length chunks)))
                             (AList.update ''chunk_index'' (MInt (int i)) (metadata chunk)),
                         c_embedding = None \<rparr>)
                    (enumerate 0 chunks)))"

text \<open>
  \<open>DocumentManager.remove_document\<close>: the loop deletes the first document that has the
  id and returns at once.
\<close>

fun remove_document :: "Document list \<Rightarrow> string \<Rightarrow> Document list \<times> bool" where
  "remove_document [] doc_id = ([], False)"
| "remove_document (doc # docs) doc_id =
     (if d_id doc = doc_id then (docs, True)
      else (case remove_document docs doc_id of (docs', removed) \<Rightarrow> (doc # docs', removed)))"

section \<open>ConversationEngine (src/shared/utils/llm_engine.py)\<close>

text \<open>
  The engine's state. \<open>search_engine\<close> is the collection of the engine's vector store, the
  only state the search engine has.
\<close>

record ConversationEngine =
  conversation_history :: "ChatMessage list"
  documents :: "Document list"
  system_prompt :: string
  search_engine :: collection

record conversation_summary =
  total_messages :: nat
  user_messages :: nat
  assistant_messages :: nat
  documents_loaded :: nat
  document_names :: "string list"

definition add_message ::
  "real \<Rightarrow> string \<Rightarrow> string \<Rightarrow> string list option \<Rightarrow> ConversationEngine \<Rightarrow> ConversationEngine" where
  "add_message now role content srcs self =
     self \<lparr> conversation_history :=
              conversation_history self @
                [\<lparr> m_role = role, m_content = content, m_timestamp = now,
                   m_sources = (case srcs of None \<Rightarrow> [] | Some s \<Rightarrow> s) \<rparr>] \<rparr>"

text \<open>
  The citation loop of the engine's \<open>get_relevant_context\<close>. \<open>chunk_idx + 1\<close> raises a
  TypeError when the stored chunk index is a string.
\<close>

fun citations :: "DocumentChunk list \<Rightarrow> exn + string list" where
  "citations [] = Inr []"
| "citations (chunk # chunks) =
     (let doc_name = dict_get (c_metadata chunk) ''filename'' (MStr ''Unknown Document'');
          chunk_idx = dict_get (c_metadata chunk) ''chunk_index'' (MInt 0)
      in case chunk_idx of
           MStr s \<Rightarrow>
             Inl (TypeError (''can only concatenate str (not '' @ [CHR 0x22] @ ''int''
                               @ [CHR 0x22] @ '') to str''))
         | MInt i \<Rightarrow>
             (case citations chunks of
                Inl ex \<Rightarrow> Inl ex
              | Inr rest \<Rightarrow>
                  Inr ((str_mval doc_name @ '' (Secci'' @ [CHR 0xC3, CHR 0xB3] @ ''n ''
                          @ str_int (i + 1) @ '')'') # rest)))"

definition ConversationEngine_get_relevant_context ::
  "env \<Rightarrow> ConversationEngine \<Rightarrow> string \<Rightarrow> int \<Rightarrow> exn + (string \<times> string list)" where
  "ConversationEngine_get_relevant_context e self query max_chunks =
     (case search_documents e (search_engine self) query None max_chunks of
        Inl ex \<Rightarrow> Inl ex
      | Inr search_result \<Rightarrow>
          (case citations (sources search_result) of
             Inl ex \<Rightarrow> Inl ex
           | Inr srcs \<Rightarrow> Inr (answer search_result, srcs)))"

text \<open>\<open>conversation_history[-6:]\<close>.\<close>

definition recent_history :: "ChatMessage list \<Rightarrow> ChatMessage list" where
  "recent_history history = drop (length history - 6) history"

definition history_message :: "ChatMessage \<Rightarrow> message" where
  "history_message msg =
     (if m_role msg = ''user'' then HumanMessage (m_content msg) else AIMessage (m_content msg))"

definition nl :: string where
  "nl = [CHR 0x0A]"

definition query_with_context :: "string \<Rightarrow> string \<Rightarrow> string" where
  "query_with_context context user_query =
     (if context \<noteq> [] \<and> context \<noteq> no_relevant_context
      then nl @ ''CONTEXTO RELEVANTE DE LOS DOCUMENTOS:'' @ nl @ context @ nl @ nl
             @ ''PREGUNTA DEL USUARIO:'' @ nl @ user_query @ nl @ nl
             @ ''Por favor, responde a la pregunta bas'' @ [CHR 0xC3, CHR 0xA1]
             @ ''ndote en la informaci'' @ [CHR 0xC3, CHR 0xB3]
             @ ''n del contexto proporcionado.''
      else nl @ ''No se encontr'' @ [CHR 0xC3, CHR 0xB3]
             @ '' contexto relevante en los documentos cargados para responder a esta pregunta.''
             @ nl @ nl @ ''PREGUNTA DEL USUARIO:'' @ nl @ user_query @ nl @ nl
             @ ''Por favor, indica que no hay informaci'' @ [CHR 0xC3, CHR 0xB3]
             @ ''n suficiente en los documentos para responder esta pregunta.'')"

text \<open>The message list \<open>generate_response\<close> assembles for the chat model.\<close>

definition build_messages :: "ConversationEngine \<Rightarrow> string \<Rightarrow> string \<Rightarrow> message list" where
  "build_messages self context user_query =
     SystemMessage (system_prompt self)
       # map history_message (recent_history (conversation_history self))
       @ [HumanMessage (query_with_context context user_query)]"

definition generate_response ::
  "env \<Rightarrow> ConversationEngine \<Rightarrow> string \<Rightarrow> exn + (string \<times> string list)" where
  "generate_response e self user_query =
     (case ConversationEngine_get_relevant_context e self user_query 5 of
        Inl ex \<Rightarrow> Inl ex
      | Inr (context, srcs) \<Rightarrow>
          (case llm e (build_messages self context user_query) of
             Inr content \<Rightarrow> Inr (content, srcs)
           | Inl ex \<Rightarrow> Inr (''Error al generar respuesta: '' @ str_exn ex, [])))"

text \<open>
  \<open>chat\<close> returns the engine as the call leaves it, also when the call raises: the
  messages appended before the exception stay in the history.
\<close>

definition chat ::
  "env \<Rightarrow> ConversationEngine \<Rightarrow> string
     \<Rightarrow> ConversationEngine \<times> (exn + (string \<times> string list))" where
  "chat e self user_message =
     (let self1 = add_message (datetime_now e 0) ''user'' user_message None self
      in case generate_response e self1 user_message of
           Inl ex \<Rightarrow> (self1, Inl ex)
         | Inr (response, srcs) \<Rightarrow>
             (add_message (datetime_now e 1) ''assistant'' response (Some srcs) self1,
              Inr (response, srcs)))"

definition clear_conversation :: "ConversationEngine \<Rightarrow> ConversationEngine" where
  "clear_conversation self = self \<lparr> conversation_history := [] \<rparr>"

definition get_conversation_summary :: "ConversationEngine \<Rightarrow> conversation_summary" where
  "get_conversation_summary self =
     \<lparr> total_messages = length (conversation_history self),
       user_messages = length (filter (\<lambda>m. m_role m = ''user'') (conversation_history self)),
       assistant_messages =
         length (filter (\<lambda>m. m_role m = ''assistant'') (conversation_history self)),
       documents_loaded = length (documents self),
       document_names = map d_filename (documents self) \<rparr>"

text \<open>
  The session of the application holds the document manager and the conversation engine
  side by side. \<open>DocumentManager.remove_document\<close> assigns to the manager's own list only;
  the manager has no reference to the engine or to its index.
\<close>

record session =
  document_manager :: "Document list"
  conversation_engine :: ConversationEngine

definition manager_remove_document :: "session \<Rightarrow> string \<Rightarrow> session \<times> bool" where
  "manager_remove_document s doc_id =
     (case remove_document (document_manager s) doc_id of
        (docs', removed) \<Rightarrow> (s \<lparr> document_manager := docs' \<rparr>, removed))"

section \<open>Sample data\<close>

text \<open>
  Concrete collaborators for the worked examples: an index that answers every query with
  the same results, a chat model that gives the same reply, and clocks that count.
\<close>

definition fixed_env ::
  "(exn + (LangChainDocument \<times> real) list) \<Rightarrow> (exn + string) \<Rightarrow> env" where
  "fixed_env search_result llm_result =
     \<lparr> similarity_search_with_score = (\<lambda>coll query k filter_dict. search_result),
       embed_documents = (\<lambda>texts. Inr (map (\<lambda>t. []) texts)),
       llm = (\<lambda>messages. llm_result),
       time_time = (\<lambda>n. real n),
       datetime_now = (\<lambda>n. real n) \<rparr>"


definition text_doc :: "string \<Rightarrow> LangChainDocument" where
  "text_doc t = \<lparr> page_content = t, metadata = [] \<rparr>"

definition report_section :: LangChainDocument where
  "report_section =
     \<lparr> page_content = ''Revenue grew.'',
       metadata = [(''document_id'', MStr ''d1''), (''filename'', MStr ''report.pdf''),
                   (''file_type'', MStr ''pdf''), (''chunk_index'', MInt 2),
                   (''total_chunks'', MInt 4), (''chunk_id'', MStr ''d1_2'')] \<rparr>"

definition new_engine :: ConversationEngine where
  "new_engine =
     \<lparr> conversation_history = [], documents = [], system_prompt = ''Eres un asistente.'',
       search_engine = [] \<rparr>"

definition said :: "string \<Rightarrow> string \<Rightarrow> ChatMessage" where
  "said role text = \<lparr> m_role = role, m_content = text, m_timestamp = 0, m_sources = [] \<rparr>"

definition seven_messages :: "ChatMessage list" where
  "seven_messages =
     [said ''user'' ''q1'', said ''assistant'' ''a1'', said ''user'' ''q2'',
      said ''assistant'' ''a2'', said ''user'' ''q3'', said ''assistant'' ''a3'',
      said ''user'' ''q4'']"

definition seven_other_messages :: "ChatMessage list" where
  "seven_other_messages =
     [said ''user'' ''another question'', said ''assistant'' ''a1'', said ''user'' ''q2'',
      said ''assistant'' ''a2'', said ''user'' ''q3'', said ''assistant'' ''a3'',
      said ''user'' ''q4'']"

definition halves :: "string \<Rightarrow> string list" where
  "halves t = [take 2 t, drop 2 t]"

definition note_txt :: Document where
  "note_txt = \<lparr> d_id = ''d1'', d_filename = ''note.txt'', d_file_type = TXT, d_size_bytes = 4,
                d_uploaded_at = 0, d_content = Some ''abcd'', d_summary = None, d_topics = [] \<rparr>"

definition first_chunk :: DocumentChunk where
  "first_chunk =
     \<lparr> c_id = MStr ''d1_0'', c_document_id = MStr ''d1'', c_content = ''ab'',
       c_metadata = [(''document_id'', MStr ''d1''), (''filename'', MStr ''note.txt''),
                     (''file_type'', MStr ''txt''), (''chunk_index'', MInt 0),
                     (''total_chunks'', MInt 2)],
       c_embedding = None \<rparr>"

definition stored_row :: "string \<Rightarrow> entry" where
  "stored_row uuid =
     \<lparr> e_id = uuid, e_document = ''ab'',
       e_metadata = [(''document_id'', MStr ''d1''), (''filename'', MStr ''note.txt''),
                     (''file_type'', MStr ''txt''), (''chunk_index'', MInt 0),
                     (''total_chunks'', MInt 2), (''chunk_id'', MStr ''d1_0'')],
       e_embedding = [] \<rparr>"

definition one_document_session :: session where
  "one_document_session =
     \<lparr> document_manager = [note_txt],
       conversation_engine = new_engine \<lparr> documents := [note_txt],
                                          search_engine := [stored_row ''u1''] \<rparr> \<rparr>"

section \<open>Context assembly and confidence\<close>




text \<open>
  C6. For the same search results (same query, same index), raising the minimum
  similarity never adds a chunk to the context: for \<open>t1 \<le> t2\<close> every chunk that survives
  the filter at \<open>t2\<close> survives it at \<open>t1\<close>, and no more chunks survive at \<open>t2\<close> than at
  \<open>t1\<close>.
\<close>

theorem threshold_monotone:
  assumes "t1 \<le> t2"
  shows "set (relevant_chunks results t2) \<subseteq> set (relevant_chunks results t1)
       \<and> length (relevant_chunks results t2) \<le> length (relevant_chunks results t1)"
  using assms
proof (induction results)
  case Nil
  then show ?case by simp
next
  case (Cons r results)
  obtain doc score where r: "r = (doc, score)" by (cases r)
  from Cons have ih: "set (relevant_chunks results t2) \<subseteq> set (relevant_chunks results t1)"
    "length (relevant_chunks results t2) \<le> length (relevant_chunks results t1)" by simp_all
  show ?case
  proof (cases "1 - score \<ge> t2")
    case True
    with Cons.prems have "1 - score \<ge> t1" by simp
    with True ih r show ?thesis by (auto simp: Let_def)
  next
    case False
    with ih r show ?thesis by (auto simp: Let_def)
  qed
qed

theorem threshold_monotone_witness:
  "(1/2::real) \<le> 7/10
   \<and> relevant_chunks [(text_doc ''a'', 1/5), (text_doc ''b'', 2/5)] (1/2) = [''a'', ''b'']
   \<and> relevant_chunks [(text_doc ''a'', 1/5), (text_doc ''b'', 2/5)] (7/10) = [''a'']
   \<and> set (relevant_chunks [(text_doc ''a'', 1/5), (text_doc ''b'', 2/5)] (7/10))
       \<subseteq> set (relevant_chunks [(text_doc ''a'', 1/5), (text_doc ''b'', 2/5)] (1/2))
   \<and> length (relevant_chunks [(text_doc ''a'', 1/5), (text_doc ''b'', 2/5)] (7/10))
       \<le> length (relevant_chunks [(text_doc ''a'', 1/5), (text_doc ''b'', 2/5)] (1/2))"
  using threshold_monotone [of "1/2" "7/10" "[(text_doc ''a'', 1/5), (text_doc ''b'', 2/5)]"]
  by (simp add: text_doc_def)















section \<open>Conversation turns\<close>

lemma chat_history:
  "conversation_history (fst (chat e self user_message)) =
     conversation_history self
       @ [\<lparr> m_role = ''user'', m_content = user_message, m_timestamp = datetime_now e 0,
             m_sources = [] \<rparr>]
       @ (case snd (chat e self user_message) of
            Inl ex \<Rightarrow> []
          | Inr (response, srcs) \<Rightarrow>
              [\<lparr> m_role = ''assistant'', m_content = response, m_timestamp = datetime_now e 1,
                  m_sources = srcs \<rparr>])"
  by (simp add: chat_def add_message_def Let_def split: sum.splits prod.splits)

lemma chat_result:
  "snd (chat e self user_message) =
     generate_response e (add_message (datetime_now e 0) ''user'' user_message None self)
       user_message"
  by (simp add: chat_def Let_def split: sum.splits prod.splits)

lemma get_relevant_context_add_message:
  "ConversationEngine_get_relevant_context e (add_message now role content srcs self) query k =
     ConversationEngine_get_relevant_context e self query k"
  by (simp add: ConversationEngine_get_relevant_context_def add_message_def)

lemma str_3: "str_int 3 = ''3''"
  by (simp add: str_int_def str_nat.simps digit_char_def)

lemma recent_history_suffix:
  assumes "length h > 6"
  shows "h = take (length h - 6) h @ recent_history h \<and> length (recent_history h) = 6"
  using assms by (simp add: recent_history_def)

text \<open>
  C3, as stated, fails: \<open>generate_response\<close> calls the retrieval before its \<open>try\<close>, so
  an exception of the search leaves \<open>chat\<close> as an exception. With an index that cannot
  be reached the call does not return a pair; the engine then holds the user message
  and no assistant message.
\<close>

theorem retrieval_failure_counterexample:
  "chat (fixed_env (Inl (Exception ''index unreachable'')) (Inr ''ok'')) new_engine ''hello''
     = (new_engine \<lparr> conversation_history :=
                       [\<lparr> m_role = ''user'', m_content = ''hello'', m_timestamp = 0,
                           m_sources = [] \<rparr>] \<rparr>,
        Inl (Exception ''index unreachable''))"
  by (simp add: chat_def generate_response_def ConversationEngine_get_relevant_context_def
        search_documents_def VectorStore_search_def fixed_env_def add_message_def new_engine_def
        Let_def)

text \<open>
  C3, amended. Whenever the retrieval step of the turn returns, \<open>chat\<close> returns a pair
  (answer, sources): if the call of the chat model raises, the answer is
  \<open>Error al generar respuesta: \<close> followed by the text of the exception and the sources
  are empty; otherwise the answer is the model's reply and the sources are the
  citations of the retrieved chunks.
\<close>

theorem chat_returns_pair:
  assumes "ConversationEngine_get_relevant_context e self user_message 5 = Inr (context, srcs)"
  shows "\<exists>response cited.
           snd (chat e self user_message) = Inr (response, cited)
           \<and> (case llm e (build_messages
                            (add_message (datetime_now e 0) ''user'' user_message None self)
                            context user_message) of
                 Inl ex \<Rightarrow> response = ''Error al generar respuesta: '' @ str_exn ex \<and> cited = []
               | Inr content \<Rightarrow> response = content \<and> cited = srcs)"
  using assms
  by (simp add: chat_result generate_response_def get_relevant_context_add_message
        split: sum.splits)

theorem chat_returns_pair_witness:
  "ConversationEngine_get_relevant_context
      (fixed_env (Inr [(report_section, 1/10)]) (Inl (Exception ''timeout''))) new_engine ''hello'' 5
     = Inr (''Revenue grew.'', [''report.pdf (Secci'' @ [CHR 0xC3, CHR 0xB3] @ ''n 3)''])
   \<and> snd (chat (fixed_env (Inr [(report_section, 1/10)]) (Inl (Exception ''timeout'')))
             new_engine ''hello'')
       = Inr (''Error al generar respuesta: timeout'', [])"
  using chat_returns_pair [of "fixed_env (Inr [(report_section, 1/10)]) (Inl (Exception ''timeout''))"
          new_engine "''hello''" "''Revenue grew.''"
          "[''report.pdf (Secci'' @ [CHR 0xC3, CHR 0xB3] @ ''n 3)'']"]
  by (simp add: chat_def generate_response_def ConversationEngine_get_relevant_context_def
        search_documents_def VectorStore_get_relevant_context_def VectorStore_search_def
        fixed_env_def add_message_def new_engine_def report_section_def source_chunk_def
        dict_get_def filter_dict_of_def calc_confidence_def str_3 Let_def)

text \<open>
  C8. \<open>chat\<close> appends the user message (role user, no sources) to the history first and
  runs the response generation on the engine that already holds it. Whatever the
  generation does, the history afterwards is the old history, then the user message,
  then the assistant message when the generation returned and nothing when it raised.
\<close>

theorem user_message_recorded:
  "conversation_history (fst (chat e self user_message)) =
     conversation_history self
       @ [\<lparr> m_role = ''user'', m_content = user_message, m_timestamp = datetime_now e 0,
             m_sources = [] \<rparr>]
       @ (case snd (chat e self user_message) of
            Inl ex \<Rightarrow> []
          | Inr (response, srcs) \<Rightarrow>
              [\<lparr> m_role = ''assistant'', m_content = response, m_timestamp = datetime_now e 1,
                  m_sources = srcs \<rparr>])
   \<and> snd (chat e self user_message) =
       generate_response e (add_message (datetime_now e 0) ''user'' user_message None self)
         user_message
   \<and> conversation_history (add_message (datetime_now e 0) ''user'' user_message None self) =
       conversation_history self
         @ [\<lparr> m_role = ''user'', m_content = user_message, m_timestamp = datetime_now e 0,
               m_sources = [] \<rparr>]"
proof (intro conjI)
  show "conversation_history (fst (chat e self user_message)) =
     conversation_history self
       @ [\<lparr> m_role = ''user'', m_content = user_message, m_timestamp = datetime_now e 0,
             m_sources = [] \<rparr>]
       @ (case snd (chat e self user_message) of
            Inl ex \<Rightarrow> []
          | Inr (response, srcs) \<Rightarrow>
              [\<lparr> m_role = ''assistant'', m_content = response, m_timestamp = datetime_now e 1,
                  m_sources = srcs \<rparr>])"
    by (rule chat_history)
  show "snd (chat e self user_message) =
       generate_response e (add_message (datetime_now e 0) ''user'' user_message None self)
         user_message"
    by (rule chat_result)
  show "conversation_history (add_message (datetime_now e 0) ''user'' user_message None self) =
       conversation_history self
         @ [\<lparr> m_role = ''user'', m_content = user_message, m_timestamp = datetime_now e 0,
               m_sources = [] \<rparr>]"
    by (simp add: add_message_def)
qed

lemma query_with_context_found:
  "context \<noteq> [] \<Longrightarrow> context \<noteq> no_relevant_context \<Longrightarrow>
     query_with_context context user_query =
       nl @ ''CONTEXTO RELEVANTE DE LOS DOCUMENTOS:'' @ nl @ context @ nl @ nl
         @ ''PREGUNTA DEL USUARIO:'' @ nl @ user_query @ nl @ nl
         @ ''Por favor, responde a la pregunta bas'' @ [CHR 0xC3, CHR 0xA1]
         @ ''ndote en la informaci'' @ [CHR 0xC3, CHR 0xB3]
         @ ''n del contexto proporcionado.''"
  by (simp add: query_with_context_def)

lemma query_with_context_missing:
  "context = [] \<or> context = no_relevant_context \<Longrightarrow>
     query_with_context context user_query =
       nl @ ''No se encontr'' @ [CHR 0xC3, CHR 0xB3]
         @ '' contexto relevante en los documentos cargados para responder a esta pregunta.''
         @ nl @ nl @ ''PREGUNTA DEL USUARIO:'' @ nl @ user_query @ nl @ nl
         @ ''Por favor, indica que no hay informaci'' @ [CHR 0xC3, CHR 0xB3]
         @ ''n suficiente en los documentos para responder esta pregunta.''"
  by (auto simp: query_with_context_def)

text \<open>
  C7, as stated, fails in its second half: \<open>get_conversation_summary\<close> returns counts and
  document names, not messages, so the history cannot be read through it. Two
  engines whose histories differ in a message have the same summary.
\<close>

theorem summary_hides_messages_counterexample:
  "get_conversation_summary (new_engine \<lparr> conversation_history := seven_messages \<rparr>)
     = get_conversation_summary (new_engine \<lparr> conversation_history := seven_other_messages \<rparr>)
   \<and> conversation_history (new_engine \<lparr> conversation_history := seven_messages \<rparr>)
       \<noteq> conversation_history (new_engine \<lparr> conversation_history := seven_other_messages \<rparr>)"
  by (simp add: get_conversation_summary_def new_engine_def seven_messages_def
        seven_other_messages_def said_def)

text \<open>
  C7, amended. With more than six messages in the history, the request
  \<open>generate_response\<close> sends to the chat model is the system prompt, then exactly the last
  six history entries, then one user message holding the retrieved context and the
  question (or, without context, the statement that none was found and the question).
  The history itself is not cut: a turn leaves every earlier message in place, and
  \<open>get_conversation_summary\<close> counts the messages, the user messages and the assistant
  messages of the whole history, older entries and window alike.
\<close>

theorem history_window:
  assumes "length (conversation_history self) > 6"
  shows "(\<exists>older window.
            conversation_history self = older @ window \<and> length window = 6
            \<and> build_messages self context user_query =
                SystemMessage (system_prompt self) # map history_message window
                  @ [HumanMessage (query_with_context context user_query)]
            \<and> (\<forall>srcs. ConversationEngine_get_relevant_context e self user_query 5
                          = Inr (context, srcs) \<longrightarrow>
                  generate_response e self user_query =
                    (case llm e (SystemMessage (system_prompt self) # map history_message window
                                   @ [HumanMessage (query_with_context context user_query)]) of
                       Inr content \<Rightarrow> Inr (content, srcs)
                     | Inl ex \<Rightarrow> Inr (''Error al generar respuesta: '' @ str_exn ex, [])))
            \<and> get_conversation_summary self =
                \<lparr> total_messages = length older + 6,
                  user_messages =
                    length (filter (\<lambda>m. m_role m = ''user'') older)
                      + length (filter (\<lambda>m. m_role m = ''user'') window),
                  assistant_messages =
                    length (filter (\<lambda>m. m_role m = ''assistant'') older)
                      + length (filter (\<lambda>m. m_role m = ''assistant'') window),
                  documents_loaded = length (documents self),
                  document_names = map d_filename (documents self) \<rparr>)
       \<and> (context \<noteq> [] \<and> context \<noteq> no_relevant_context \<longrightarrow>
            query_with_context context user_query =
              nl @ ''CONTEXTO RELEVANTE DE LOS DOCUMENTOS:'' @ nl @ context @ nl @ nl
                @ ''PREGUNTA DEL USUARIO:'' @ nl @ user_query @ nl @ nl
                @ ''Por favor, responde a la pregunta bas'' @ [CHR 0xC3, CHR 0xA1]
                @ ''ndote en la informaci'' @ [CHR 0xC3, CHR 0xB3]
                @ ''n del contexto proporcionado.'')
       \<and> (context = [] \<or> context = no_relevant_context \<longrightarrow>
            query_with_context context user_query =
              nl @ ''No se encontr'' @ [CHR 0xC3, CHR 0xB3]
                @ '' contexto relevante en los documentos cargados para responder a esta pregunta.''
                @ nl @ nl @ ''PREGUNTA DEL USUARIO:'' @ nl @ user_query @ nl @ nl
                @ ''Por favor, indica que no hay informaci'' @ [CHR 0xC3, CHR 0xB3]
                @ ''n suficiente en los documentos para responder esta pregunta.'')
       \<and> take (length (conversation_history self))
            (conversation_history (fst (chat e self user_query)))
           = conversation_history self"
proof (intro conjI)
  let ?h = "conversation_history self"
  let ?older = "take (length ?h - 6) ?h"
  let ?window = "recent_history ?h"
  from assms have split: "?h = ?older @ ?window" and len: "length ?window = 6"
    using recent_history_suffix [of ?h] by simp_all
  have msgs: "build_messages self context user_query =
               SystemMessage (system_prompt self) # map history_message ?window
                 @ [HumanMessage (query_with_context context user_query)]"
    by (simp add: build_messages_def)
  have gen: "\<forall>srcs. ConversationEngine_get_relevant_context e self user_query 5
                         = Inr (context, srcs) \<longrightarrow>
                 generate_response e self user_query =
                   (case llm e (SystemMessage (system_prompt self) # map history_message ?window
                                  @ [HumanMessage (query_with_context context user_query)]) of
                      Inr content \<Rightarrow> Inr (content, srcs)
                    | Inl ex \<Rightarrow> Inr (''Error al generar respuesta: '' @ str_exn ex, []))"
    by (simp add: generate_response_def build_messages_def)
  have count: "length (filter P ?h) = length (filter P ?older) + length (filter P ?window)"
    for P :: "ChatMessage \<Rightarrow> bool"
  proof -
    have "filter P ?h = filter P (?older @ ?window)" using split by simp
    then show ?thesis by (simp only: filter_append length_append)
  qed
  have total: "length ?h = length ?older + 6"
    using assms by simp
  have summary: "get_conversation_summary self =
                \<lparr> total_messages = length ?older + 6,
                  user_messages =
                    length (filter (\<lambda>m. m_role m = ''user'') ?older)
                      + length (filter (\<lambda>m. m_role m = ''user'') ?window),
                  assistant_messages =
                    length (filter (\<lambda>m. m_role m = ''assistant'') ?older)
                      + length (filter (\<lambda>m. m_role m = ''assistant'') ?window),
                  documents_loaded = length (documents self),
                  document_names = map d_filename (documents self) \<rparr>"
    unfolding get_conversation_summary_def
    by (simp only: count [symmetric] total [symmetric])
  from split len msgs gen summary
  show "\<exists>older window.
            conversation_history self = older @ window \<and> length window = 6
            \<and> build_messages self context user_query =
                SystemMessage (system_prompt self) # map history_message window
                  @ [HumanMessage (query_with_context context user_query)]
            \<and> (\<forall>srcs. ConversationEngine_get_relevant_context e self user_query 5
                          = Inr (context, srcs) \<longrightarrow>
                  generate_response e self user_query =
                    (case llm e (SystemMessage (system_prompt self) # map history_message window
                                   @ [HumanMessage (query_with_context context user_query)]) of
                       Inr content \<Rightarrow> Inr (content, srcs)
                     | Inl ex \<Rightarrow> Inr (''Error al generar respuesta: '' @ str_exn ex, [])))
            \<and> get_conversation_summary self =
                \<lparr> total_messages = length older + 6,
                  user_messages =
                    length (filter (\<lambda>m. m_role m = ''user'') older)
                      + length (filter (\<lambda>m. m_role m = ''user'') window),
                  assistant_messages =
                    length (filter (\<lambda>m. m_role m = ''assistant'') older)
                      + length (filter (\<lambda>m. m_role m = ''assistant'') window),
                  documents_loaded = length (documents self),
                  document_names = map d_filename (documents self) \<rparr>"
    by blast
next
  show "context \<noteq> [] \<and> context \<noteq> no_relevant_context \<longrightarrow>
            query_with_context context user_query =
              nl @ ''CONTEXTO RELEVANTE DE LOS DOCUMENTOS:'' @ nl @ context @ nl @ nl
                @ ''PREGUNTA DEL USUARIO:'' @ nl @ user_query @ nl @ nl
                @ ''Por favor, responde a la pregunta bas'' @ [CHR 0xC3, CHR 0xA1]
                @ ''ndote en la informaci'' @ [CHR 0xC3, CHR 0xB3]
                @ ''n del contexto proporcionado.''"
    using query_with_context_found by blast
next
  show "context = [] \<or> context = no_relevant_context \<longrightarrow>
            query_with_context context user_query =
              nl @ ''No se encontr'' @ [CHR 0xC3, CHR 0xB3]
                @ '' contexto relevante en los documentos cargados para responder a esta pregunta.''
                @ nl @ nl @ ''PREGUNTA DEL USUARIO:'' @ nl @ user_query @ nl @ nl
                @ ''Por favor, indica que no hay informaci'' @ [CHR 0xC3, CHR 0xB3]
                @ ''n suficiente en los documentos para responder esta pregunta.''"
    using query_with_context_missing by blast
next
  show "take (length (conversation_history self))
            (conversation_history (fst (chat e self user_query)))
           = conversation_history self"
    by (simp add: chat_history)
qed

theorem history_window_witness:
  "length (conversation_history (new_engine \<lparr> conversation_history := seven_messages \<rparr>)) > 6
   \<and> build_messages (new_engine \<lparr> conversation_history := seven_messages \<rparr>) ''ctx'' ''q'' =
       [SystemMessage ''Eres un asistente.'', AIMessage ''a1'', HumanMessage ''q2'',
        AIMessage ''a2'', HumanMessage ''q3'', AIMessage ''a3'', HumanMessage ''q4'',
        HumanMessage
          (nl @ ''CONTEXTO RELEVANTE DE LOS DOCUMENTOS:'' @ nl @ ''ctx'' @ nl @ nl
             @ ''PREGUNTA DEL USUARIO:'' @ nl @ ''q'' @ nl @ nl
             @ ''Por favor, responde a la pregunta bas'' @ [CHR 0xC3, CHR 0xA1]
             @ ''ndote en la informaci'' @ [CHR 0xC3, CHR 0xB3]
             @ ''n del contexto proporcionado.'')]
   \<and> get_conversation_summary (new_engine \<lparr> conversation_history := seven_messages \<rparr>)
       = \<lparr> total_messages = 7, user_messages = 4, assistant_messages = 3,
           documents_loaded = 0, document_names = [] \<rparr>"
  using history_window [of "new_engine \<lparr> conversation_history := seven_messages \<rparr>"
          "''ctx''" "''q''" "fixed_env (Inr []) (Inr ''ok'')"]
  by (simp add: build_messages_def recent_history_def history_message_def new_engine_def
        seven_messages_def said_def get_conversation_summary_def query_with_context_def
        no_relevant_context_def)

section \<open>Chunking\<close>

lemma create_chunks_empty:
  "d_content document = None \<or> d_content document = Some '''' \<Longrightarrow>
     create_chunks split_text document = []"
  by (auto simp: create_chunks_def)

lemma create_chunks_nonempty:
  assumes "d_content document = Some text" and "text \<noteq> []"
  shows "create_chunks split_text document =
           map (\<lambda>i. \<lparr> c_id = MStr (d_id document @ ''_'' @ str_nat i),
                      c_document_id = MStr (d_id document),
                      c_content = split_text text ! i,
                      c_metadata =
                        AList.update ''total_chunks'' (MInt (int (length (split_text text))))
                          (AList.update ''chunk_index'' (MInt (int i))
                             [(''document_id'', MStr (d_id document)),
                              (''filename'', MStr (d_filename document)),
                              (''file_type'', MStr (DocumentType_value (d_file_type document)))]),
                      c_embedding = None \<rparr>)
               [0..<length (split_text text)]"
  using assms
  by (intro nth_equalityI)
     (simp_all add: create_chunks_def split_documents_def Let_def nth_enumerate_eq)

lemma length_create_chunks:
  "d_content document = Some text \<Longrightarrow> text \<noteq> [] \<Longrightarrow>
     length (create_chunks split_text document) = length (split_text text)"
  by (simp add: create_chunks_nonempty)

lemma str_nat_digits: "str_nat 0 = ''0''" "str_nat (Suc 0) = ''1''"
  by (simp_all add: str_nat.simps [of 0] str_nat.simps [of "Suc 0"] digit_char_def)

text \<open>
  C5. In the sequence \<open>create_chunks\<close> returns, every chunk records the length of the
  sequence as \<open>total_chunks\<close>, the \<open>chunk_index\<close> values are 0, 1, ... up to the length
  less one in this order, and the id of the chunk at index \<open>i\<close> is the document id, an
  underscore and \<open>i\<close> in decimal. A document whose content is absent or empty gives the
  empty sequence; the function has no failing branch.
\<close>

theorem create_chunks_numbering:
  "map (\<lambda>c. map_of (c_metadata c) ''total_chunks'') (create_chunks split_text document)
     = replicate (length (create_chunks split_text document))
         (Some (MInt (int (length (create_chunks split_text document)))))
   \<and> map (\<lambda>c. map_of (c_metadata c) ''chunk_index'') (create_chunks split_text document)
     = map (\<lambda>i. Some (MInt (int i))) [0..<length (create_chunks split_text document)]
   \<and> map c_id (create_chunks split_text document)
     = map (\<lambda>i. MStr (d_id document @ ''_'' @ str_nat i))
         [0..<length (create_chunks split_text document)]
   \<and> (d_content document = None \<or> d_content document = Some '''' \<longrightarrow>
        create_chunks split_text document = [])"
proof (cases "d_content document = None \<or> d_content document = Some ''''")
  case True
  then have "create_chunks split_text document = []" by (rule create_chunks_empty)
  then show ?thesis by simp
next
  case False
  then obtain body where t: "d_content document = Some body" "body \<noteq> []" by auto
  note eq = create_chunks_nonempty [OF t, of split_text]
  have len: "length (create_chunks split_text document) = length (split_text body)"
    using t by (rule length_create_chunks)
  have total: "map (\<lambda>c. map_of (c_metadata c) ''total_chunks'') (create_chunks split_text document)
     = replicate (length (split_text body)) (Some (MInt (int (length (split_text body)))))"
    unfolding eq by (simp add: comp_def update_conv' map_replicate_const)
  have idx: "map (\<lambda>c. map_of (c_metadata c) ''chunk_index'') (create_chunks split_text document)
     = map (\<lambda>i. Some (MInt (int i))) [0..<length (split_text body)]"
    unfolding eq by (simp add: comp_def update_conv')
  have ids: "map c_id (create_chunks split_text document)
     = map (\<lambda>i. MStr (d_id document @ ''_'' @ str_nat i)) [0..<length (split_text body)]"
    unfolding eq by (simp add: comp_def)
  from total idx ids False show ?thesis unfolding len by blast
qed

theorem create_chunks_numbering_witness:
  "create_chunks halves note_txt =
     [\<lparr> c_id = MStr ''d1_0'', c_document_id = MStr ''d1'', c_content = ''ab'',
         c_metadata = [(''document_id'', MStr ''d1''), (''filename'', MStr ''note.txt''),
                       (''file_type'', MStr ''txt''), (''chunk_index'', MInt 0),
                       (''total_chunks'', MInt 2)],
         c_embedding = None \<rparr>,
      \<lparr> c_id = MStr ''d1_1'', c_document_id = MStr ''d1'', c_content = ''cd'',
         c_metadata = [(''document_id'', MStr ''d1''), (''filename'', MStr ''note.txt''),
                       (''file_type'', MStr ''txt''), (''chunk_index'', MInt 1),
                       (''total_chunks'', MInt 2)],
         c_embedding = None \<rparr>]
   \<and> create_chunks halves (note_txt \<lparr> d_content := None \<rparr>) = []
   \<and> create_chunks halves (note_txt \<lparr> d_content := Some '''' \<rparr>) = []"
  using create_chunks_numbering [of halves note_txt]
        create_chunks_numbering [of halves "note_txt \<lparr> d_content := None \<rparr>"]
        create_chunks_numbering [of halves "note_txt \<lparr> d_content := Some '''' \<rparr>"]
  by (simp add: create_chunks_def split_documents_def halves_def note_txt_def Let_def
        enumerate_eq_zip str_nat_digits upt_rec [of 0] upt_rec [of 1] upt_rec [of 2])

section \<open>Indexing and removal\<close>

lemma upsert1_fresh:
  "e_id x \<notin> e_id ` set coll \<Longrightarrow> upsert1 x coll = coll @ [x]"
  by (induction coll) auto

lemma collection_upsert_fresh:
  "distinct (map e_id new) \<Longrightarrow> e_id ` set new \<inter> e_id ` set coll = {} \<Longrightarrow>
     collection_upsert new coll = coll @ new"
proof (induction new arbitrary: coll)
  case Nil
  then show ?case by (simp add: collection_upsert_def)
next
  case (Cons x new)
  from Cons.prems have x: "e_id x \<notin> e_id ` set coll" by auto
  from Cons.prems have "e_id ` set new \<inter> e_id ` set (coll @ [x]) = {}" by auto
  with Cons.prems have "collection_upsert new (coll @ [x]) = (coll @ [x]) @ new"
    by (intro Cons.IH) simp_all
  with x show ?case by (simp add: collection_upsert_def upsert1_fresh)
qed

lemma new_rows_fields:
  assumes "length uuids = length chunks" and "length embeddings = length chunks"
  shows "map e_id (new_rows uuids chunks embeddings) = uuids"
    and "map e_document (new_rows uuids chunks embeddings) = map c_content chunks"
    and "map (\<lambda>x. map_of (e_metadata x) ''chunk_id'') (new_rows uuids chunks embeddings)
           = map (\<lambda>c. Some (c_id c)) chunks"
    and "length (new_rows uuids chunks embeddings) = length chunks"
  using assms
  by (auto intro!: nth_equalityI simp: new_rows_def chunk_document_def update_conv')

lemma add_chunks_rows:
  assumes "chunks \<noteq> []" and "embed_documents e (map c_content chunks) = Inr embeddings"
  shows "add_chunks e uuids chunks coll =
           Inr (collection_upsert (new_rows uuids chunks embeddings) coll)"
  using assms
  by (simp add: add_chunks_def Chroma_add_documents_def new_rows_def Let_def comp_def
        chunk_document_def)

text \<open>
  C4, as stated, fails: \<open>add_chunks\<close> never passes the chunk id as the id of the stored
  row, so the second addition of a chunk is stored under a new generated id beside the
  first. After adding the same chunk twice the collection holds two rows with the same
  \<open>chunk_id\<close> in their metadata.
\<close>

theorem add_chunks_duplicates_counterexample:
  "add_chunks (fixed_env (Inr []) (Inr ''ok'')) [''u1''] [first_chunk] [] = Inr [stored_row ''u1'']
   \<and> add_chunks (fixed_env (Inr []) (Inr ''ok'')) [''u2''] [first_chunk] [stored_row ''u1'']
       = Inr [stored_row ''u1'', stored_row ''u2'']
   \<and> map (\<lambda>x. map_of (e_metadata x) ''chunk_id'') [stored_row ''u1'', stored_row ''u2'']
       = [Some (c_id first_chunk), Some (c_id first_chunk)]"
  by (simp add: add_chunks_def Chroma_add_documents_def collection_upsert_def chunk_document_def
        fixed_env_def first_chunk_def stored_row_def Let_def)

text \<open>
  C4, amended. \<open>add_chunks\<close> with an empty list leaves the collection as it is, and
  \<open>index_chunks\<close> is \<open>add_chunks\<close>. For any list, when the embedding call returns one
  vector per chunk and the generated ids are fresh, \<open>add_chunks\<close> keeps every stored row
  and appends one new row per chunk under the generated id, the chunk's own id being
  recorded in the row's metadata only: each call makes the collection longer by the
  length of the list.
\<close>

theorem add_chunks_appends:
  assumes "embed_documents e (map c_content chunks) = Inr embeddings"
      and "length embeddings = length chunks"
      and "length uuids = length chunks"
      and "distinct uuids"
      and "set uuids \<inter> e_id ` set coll = {}"
  shows "add_chunks e uuids [] coll = Inr coll
       \<and> index_chunks e uuids chunks coll = add_chunks e uuids chunks coll
       \<and> (\<exists>new. add_chunks e uuids chunks coll = Inr (coll @ new)
                \<and> length new = length chunks
                \<and> map e_id new = uuids
                \<and> map e_document new = map c_content chunks
                \<and> map (\<lambda>x. map_of (e_metadata x) ''chunk_id'') new
                    = map (\<lambda>c. Some (c_id c)) chunks)"
proof (intro conjI)
  show "add_chunks e uuids [] coll = Inr coll" by (simp add: add_chunks_def)
  show "index_chunks e uuids chunks coll = add_chunks e uuids chunks coll"
    by (simp add: index_chunks_def)
  show "\<exists>new. add_chunks e uuids chunks coll = Inr (coll @ new)
                \<and> length new = length chunks
                \<and> map e_id new = uuids
                \<and> map e_document new = map c_content chunks
                \<and> map (\<lambda>x. map_of (e_metadata x) ''chunk_id'') new
                    = map (\<lambda>c. Some (c_id c)) chunks"
  proof (cases "chunks = []")
    case True
    with assms(3) show ?thesis by (simp add: add_chunks_def)
  next
    case False
    let ?new = "new_rows uuids chunks embeddings"
    note f = new_rows_fields [OF assms(3) assms(2)]
    have ids: "map e_id ?new = uuids" by (rule f(1))
    then have "distinct (map e_id ?new)" using assms(4) by simp
    moreover have "e_id ` set ?new \<inter> e_id ` set coll = {}"
      using assms(5) ids by (metis set_map)
    ultimately have "collection_upsert ?new coll = coll @ ?new"
      by (rule collection_upsert_fresh)
    with False assms(1) have "add_chunks e uuids chunks coll = Inr (coll @ ?new)"
      by (simp add: add_chunks_rows)
    with f show ?thesis by blast
  qed
qed

theorem add_chunks_appends_witness:
  "embed_documents (fixed_env (Inr []) (Inr ''ok'')) (map c_content [first_chunk]) = Inr [[]]
   \<and> length [[]::real list] = length [first_chunk]
   \<and> length [''u2''] = length [first_chunk]
   \<and> distinct [''u2'']
   \<and> set [''u2''] \<inter> e_id ` set [stored_row ''u1''] = {}
   \<and> add_chunks (fixed_env (Inr []) (Inr ''ok'')) [''u2''] [] [stored_row ''u1'']
       = Inr [stored_row ''u1'']
   \<and> add_chunks (fixed_env (Inr []) (Inr ''ok'')) [''u2''] [first_chunk] [stored_row ''u1'']
       = Inr ([stored_row ''u1''] @ [stored_row ''u2''])"
  using add_chunks_appends [of "fixed_env (Inr []) (Inr ''ok'')" "[first_chunk]" "[[]]" "[''u2'']"
          "[stored_row ''u1'']"]
  by (simp add: add_chunks_def Chroma_add_documents_def collection_upsert_def chunk_document_def
        fixed_env_def first_chunk_def stored_row_def Let_def)

lemma remove_document_present:
  "doc_id \<in> d_id ` set docs \<Longrightarrow>
     \<exists>before doc after.
       docs = before @ doc # after \<and> d_id doc = doc_id \<and> doc_id \<notin> d_id ` set before
       \<and> remove_document docs doc_id = (before @ after, True)"
proof (induction docs)
  case Nil
  then show ?case by simp
next
  case (Cons d docs)
  show ?case
  proof (cases "d_id d = doc_id")
    case True
    then have "d # docs = [] @ d # docs \<and> d_id d = doc_id \<and> doc_id \<notin> d_id ` set []
               \<and> remove_document (d # docs) doc_id = ([] @ docs, True)"
      by simp
    then show ?thesis by blast
  next
    case False
    with Cons.prems have "doc_id \<in> d_id ` set docs" by auto
    from Cons.IH [OF this] obtain before doc after where
      ih: "docs = before @ doc # after" "d_id doc = doc_id" "doc_id \<notin> d_id ` set before"
          "remove_document docs doc_id = (before @ after, True)"
      by blast
    with False have "d # docs = (d # before) @ doc # after \<and> d_id doc = doc_id
               \<and> doc_id \<notin> d_id ` set (d # before)
               \<and> remove_document (d # docs) doc_id = ((d # before) @ after, True)"
      by auto
    then show ?thesis by blast
  qed
qed

lemma remove_document_absent:
  "doc_id \<notin> d_id ` set docs \<Longrightarrow> remove_document docs doc_id = (docs, False)"
  by (induction docs) auto

lemma remove_document_distinct:
  assumes "distinct (map d_id docs)"
  shows "doc_id \<notin> d_id ` set (fst (remove_document docs doc_id))"
proof (cases "doc_id \<in> d_id ` set docs")
  case True
  from remove_document_present [OF this] obtain before doc after where
    r: "docs = before @ doc # after" "d_id doc = doc_id"
       "remove_document docs doc_id = (before @ after, True)"
    by blast
  with assms show ?thesis by auto
next
  case False
  then show ?thesis by (simp add: remove_document_absent)
qed

lemma manager_documents:
  "document_manager (fst (manager_remove_document s doc_id)) =
     fst (remove_document (document_manager s) doc_id)"
  by (cases "remove_document (document_manager s) doc_id")
     (simp add: manager_remove_document_def)

lemma remove_document_index_cleared:
  "collection_get_ids (VectorStore_remove_document coll doc_id) doc_id = []"
  by (auto simp: VectorStore_remove_document_def collection_get_ids_def collection_delete_def
        Let_def filter_empty_conv)

lemma remove_document_index_kept:
  "VectorStore_remove_document coll doc_id =
     filter (\<lambda>x. e_id x \<notin> set (collection_get_ids coll doc_id)) coll"
  by (simp add: VectorStore_remove_document_def collection_delete_def Let_def)

text \<open>
  C9, as stated, fails: \<open>DocumentManager.remove_document\<close> returns true and takes the
  document out of the manager's list, and the vector index still holds the chunks of
  the document afterwards.
\<close>

theorem manager_leaves_index_counterexample:
  "manager_remove_document one_document_session ''d1''
     = (one_document_session \<lparr> document_manager := [] \<rparr>, True)
   \<and> collection_get_ids
        (search_engine (conversation_engine
           (fst (manager_remove_document one_document_session ''d1'')))) ''d1''
       = [''u1'']"
  by (simp add: manager_remove_document_def one_document_session_def note_txt_def new_engine_def
        stored_row_def collection_get_ids_def)

text \<open>
  C9, amended. If a document with the id is in the manager's list,
  \<open>DocumentManager.remove_document\<close> returns true and takes the first such document out
  of the list (no document with the id is left when the ids in the list are distinct);
  if there is none it returns false and changes nothing. In both cases the engine and
  its index are as before. Removal from the index is the separate operation
  \<open>VectorStore.remove_document\<close>: it deletes every stored row found for the document
  id, keeps the other rows, and changes nothing when no row is found.
\<close>

theorem removal_consistency:
  "(doc_id \<in> d_id ` set (document_manager s) \<longrightarrow>
      snd (manager_remove_document s doc_id) = True
      \<and> (\<exists>before doc after.
            document_manager s = before @ doc # after \<and> d_id doc = doc_id
            \<and> doc_id \<notin> d_id ` set before
            \<and> document_manager (fst (manager_remove_document s doc_id)) = before @ after)
      \<and> (distinct (map d_id (document_manager s)) \<longrightarrow>
            doc_id \<notin> d_id ` set (document_manager (fst (manager_remove_document s doc_id)))))
   \<and> (doc_id \<notin> d_id ` set (document_manager s) \<longrightarrow>
        manager_remove_document s doc_id = (s, False))
   \<and> conversation_engine (fst (manager_remove_document s doc_id)) = conversation_engine s
   \<and> collection_get_ids (VectorStore_remove_document coll doc_id) doc_id = []
   \<and> VectorStore_remove_document coll doc_id =
       filter (\<lambda>x. e_id x \<notin> set (collection_get_ids coll doc_id)) coll
   \<and> (collection_get_ids coll doc_id = [] \<longrightarrow> VectorStore_remove_document coll doc_id = coll)"
proof (intro conjI impI)
  assume "doc_id \<in> d_id ` set (document_manager s)"
  from remove_document_present [OF this] obtain before doc after where
    r: "document_manager s = before @ doc # after" "d_id doc = doc_id"
       "doc_id \<notin> d_id ` set before"
       "remove_document (document_manager s) doc_id = (before @ after, True)"
    by blast
  from r(4) show "snd (manager_remove_document s doc_id) = True"
    by (simp add: manager_remove_document_def)
  from r(4) have "document_manager (fst (manager_remove_document s doc_id)) = before @ after"
    by (simp add: manager_remove_document_def)
  with r(1-3) show "\<exists>before doc after.
            document_manager s = before @ doc # after \<and> d_id doc = doc_id
            \<and> doc_id \<notin> d_id ` set before
            \<and> document_manager (fst (manager_remove_document s doc_id)) = before @ after"
    by blast
next
  assume "distinct (map d_id (document_manager s))"
  from remove_document_distinct [OF this, of doc_id]
  show "doc_id \<notin> d_id ` set (document_manager (fst (manager_remove_document s doc_id)))"
    by (simp add: manager_documents)
next
  assume "doc_id \<notin> d_id ` set (document_manager s)"
  then show "manager_remove_document s doc_id = (s, False)"
    by (simp add: manager_remove_document_def remove_document_absent)
next
  show "conversation_engine (fst (manager_remove_document s doc_id)) = conversation_engine s"
    by (simp add: manager_remove_document_def split: prod.splits)
next
  show "collection_get_ids (VectorStore_remove_document coll doc_id) doc_id = []"
    by (rule remove_document_index_cleared)
next
  show "VectorStore_remove_document coll doc_id =
       filter (\<lambda>x. e_id x \<notin> set (collection_get_ids coll doc_id)) coll"
    by (rule remove_document_index_kept)
next
  assume "collection_get_ids coll doc_id = []"
  then show "VectorStore_remove_document coll doc_id = coll"
    by (simp add: VectorStore_remove_document_def)
qed

theorem removal_consistency_witness:
  "''d1'' \<in> d_id ` set (document_manager one_document_session)
   \<and> distinct (map d_id (document_manager one_document_session))
   \<and> manager_remove_document one_document_session ''d1''
       = (one_document_session \<lparr> document_manager := [] \<rparr>, True)
   \<and> ''d2'' \<notin> d_id ` set (document_manager one_document_session)
   \<and> manager_remove_document one_document_session ''d2'' = (one_document_session, False)
   \<and> VectorStore_remove_document [stored_row ''u1''] ''d1'' = []
   \<and> collection_get_ids [stored_row ''u1''] ''d2'' = []
   \<and> VectorStore_remove_document [stored_row ''u1''] ''d2'' = [stored_row ''u1'']"
  using removal_consistency [of "''d1''" one_document_session "[stored_row ''u1'']"]
        removal_consistency [of "''d2''" one_document_session "[stored_row ''u1'']"]
  by (simp add: manager_remove_document_def one_document_session_def note_txt_def new_engine_def
        stored_row_def collection_get_ids_def VectorStore_remove_document_def
        collection_delete_def)

end
